theory Spec2Isabelle
  imports Main "HOL-Library.Word"
begin

section \<open>Python values used by the plugin\<close>

subsection \<open>Strings\<close>

text \<open>
  A Python \<open>str\<close> is a sequence of Unicode code points, so it is modelled as a list of
  naturals. \<open>lit\<close> turns an ASCII literal of the source into that representation.
\<close>

type_synonym pystr = "nat list"

definition lit :: "string \<Rightarrow> pystr" where
  "lit s = map of_char s"

text \<open>\<open>s.startswith(p)\<close>, and its form with a tuple of prefixes.\<close>

definition py_startswith :: "pystr \<Rightarrow> pystr \<Rightarrow> bool" where
  "py_startswith s p = (take (length p) s = p)"

definition py_startswith_any :: "pystr \<Rightarrow> pystr list \<Rightarrow> bool" where
  "py_startswith_any s ps = list_ex (py_startswith s) ps"

text \<open>
  The characters \<open>str.isspace\<close> accepts, which are the ones \<open>str.strip()\<close> removes
  (Unicode 14.0, the table of CPython 3.11).
\<close>

definition py_whitespace :: "nat list" where
  "py_whitespace =
     [0x9, 0xA, 0xB, 0xC, 0xD, 0x1C, 0x1D, 0x1E, 0x1F, 0x20, 0x85, 0xA0, 0x1680,
      0x2000, 0x2001, 0x2002, 0x2003, 0x2004, 0x2005, 0x2006, 0x2007, 0x2008, 0x2009,
      0x200A, 0x2028, 0x2029, 0x202F, 0x205F, 0x3000]"

definition py_isspace :: "nat \<Rightarrow> bool" where
  "py_isspace c = (c \<in> set py_whitespace)"

definition py_lstrip :: "pystr \<Rightarrow> pystr" where
  "py_lstrip s = dropWhile py_isspace s"

definition py_rstrip :: "pystr \<Rightarrow> pystr" where
  "py_rstrip s = rev (dropWhile py_isspace (rev s))"

definition py_strip :: "pystr \<Rightarrow> pystr" where
  "py_strip s = py_rstrip (py_lstrip s)"

text \<open>
  \<open>str.isdigit\<close>: true when the string is not empty and every character has the
  Unicode property Numeric_Type=Decimal or Numeric_Type=Digit. The table lists the
  inclusive code point ranges with that property (Unicode 14.0, CPython 3.11); the
  first range is the ASCII digits.
\<close>

definition digit_ranges :: "(nat \<times> nat) list" where
  "digit_ranges =
     [(0x30, 0x39), (0xB2, 0xB3), (0xB9, 0xB9), (0x660, 0x669), (0x6F0, 0x6F9),
      (0x7C0, 0x7C9), (0x966, 0x96F), (0x9E6, 0x9EF), (0xA66, 0xA6F), (0xAE6, 0xAEF),
      (0xB66, 0xB6F), (0xBE6, 0xBEF), (0xC66, 0xC6F), (0xCE6, 0xCEF), (0xD66, 0xD6F),
      (0xDE6, 0xDEF), (0xE50, 0xE59), (0xED0, 0xED9), (0xF20, 0xF29), (0x1040, 0x1049),
      (0x1090, 0x1099), (0x1369, 0x1371), (0x17E0, 0x17E9), (0x1810, 0x1819),
      (0x1946, 0x194F), (0x19D0, 0x19DA), (0x1A80, 0x1A89), (0x1A90, 0x1A99),
      (0x1B50, 0x1B59), (0x1BB0, 0x1BB9), (0x1C40, 0x1C49), (0x1C50, 0x1C59),
      (0x2070, 0x2070), (0x2074, 0x2079), (0x2080, 0x2089), (0x2460, 0x2468),
      (0x2474, 0x247C), (0x2488, 0x2490), (0x24EA, 0x24EA), (0x24F5, 0x24FD),
      (0x24FF, 0x24FF), (0x2776, 0x277E), (0x2780, 0x2788), (0x278A, 0x2792),
      (0xA620, 0xA629), (0xA8D0, 0xA8D9), (0xA900, 0xA909), (0xA9D0, 0xA9D9),
      (0xA9F0, 0xA9F9), (0xAA50, 0xAA59), (0xABF0, 0xABF9), (0xFF10, 0xFF19),
      (0x104A0, 0x104A9), (0x10A40, 0x10A43), (0x10D30, 0x10D39), (0x10E60, 0x10E68),
      (0x11052, 0x1105A), (0x11066, 0x1106F), (0x110F0, 0x110F9), (0x11136, 0x1113F),
      (0x111D0, 0x111D9), (0x112F0, 0x112F9), (0x11450, 0x11459), (0x114D0, 0x114D9),
      (0x11650, 0x11659), (0x116C0, 0x116C9), (0x11730, 0x11739), (0x118E0, 0x118E9),
      (0x11950, 0x11959), (0x11C50, 0x11C59), (0x11D50, 0x11D59), (0x11DA0, 0x11DA9),
      (0x16A60, 0x16A69), (0x16AC0, 0x16AC9), (0x16B50, 0x16B59), (0x1D7CE, 0x1D7FF),
      (0x1E140, 0x1E149), (0x1E2F0, 0x1E2F9), (0x1E950, 0x1E959), (0x1F100, 0x1F10A),
      (0x1FBF0, 0x1FBF9)]"

definition unicode_digit :: "nat \<Rightarrow> bool" where
  "unicode_digit c = list_ex (\<lambda>(lo, hi). lo \<le> c \<and> c \<le> hi) digit_ranges"

definition py_isdigit :: "pystr \<Rightarrow> bool" where
  "py_isdigit s = (s \<noteq> [] \<and> list_all unicode_digit s)"

text \<open>\<open>sep.join(xs)\<close>.\<close>

fun py_join :: "pystr \<Rightarrow> pystr list \<Rightarrow> pystr" where
  "py_join sep [] = []"
| "py_join sep [x] = x"
| "py_join sep (x # y # ys) = x @ sep @ py_join sep (y # ys)"

subsection \<open>Exceptions\<close>

text \<open>
  The exception classes that the operations of the plugin can meet; every one of them is
  a subclass of \<open>Exception\<close>. An exception carries its class and the text \<open>str(e)\<close>.
  \<open>ValueError\<close> stands for a \<open>ValueError\<close> that is none of \<open>UnicodeDecodeError\<close>,
  \<open>UnicodeEncodeError\<close> and \<open>JSONDecodeError\<close>.
\<close>

datatype exn_class =
  NameError | AttributeError | TypeError | ValueError | OSError
  | UnicodeDecodeError | UnicodeEncodeError | JSONDecodeError | RecursionError

datatype exn = Exn (exn_class: exn_class) (exn_text: pystr)

subsection \<open>JSON values as \<open>json.loads\<close> returns them\<close>

text \<open>
  \<open>None\<close>, \<open>bool\<close>, \<open>int\<close>, \<open>float\<close> (an IEEE-754 double, kept as its 64 bits), \<open>str\<close>,
  \<open>list\<close> and \<open>dict\<close> (keys in insertion order).
\<close>

datatype json =
  JNull | JBool bool | JInt int | JFloat "64 word" | JStr pystr
  | JArr "json list" | JObj "(pystr \<times> json) list"

subsection \<open>Console output\<close>

text \<open>
  One constructor for each \<open>print\<close> of the source, carrying the values its f-string
  interpolates, in the order of the source:
  \<^item> \<open>FoundInPath p\<close>: \<open>ShellCheck: Found in PATH: {path}\<close>
  \<^item> \<open>UsingBundled b\<close>: \<open>ShellCheck: Using bundled version: {bundled}\<close>
  \<^item> \<open>WarnNotFound b\<close>: \<open>ShellCheck: WARNING - Not found in PATH or: {bundled}\<close>
  \<^item> \<open>WarnCannotLocate e\<close>: \<open>ShellCheck: WARNING - Cannot locate bundled version: {e}\<close>
  \<^item> \<open>ErrReadFallback e\<close>: \<open>ShellCheck: ERROR - Failed to read config with fallback encoding: {e}\<close>
  \<^item> \<open>ErrRead e\<close>: \<open>ShellCheck: ERROR - Failed to read config: {e}\<close>
  \<^item> \<open>ErrNotObject\<close>: \<open>ShellCheck: ERROR - Config must be JSON object, not array/string\<close>
  \<^item> \<open>ErrNotArray\<close>: \<open>ShellCheck: ERROR - 'ignore_codes' must be array\<close>
  \<^item> \<open>WarnInvalidCodes xs\<close>: \<open>ShellCheck: Warning - Invalid codes ignored: {invalid}\<close>
  \<^item> \<open>LoadedCodes xs\<close>: \<open>ShellCheck: Loaded ignore codes: {valid}\<close>
  \<^item> \<open>ErrInvalidJson e\<close>: \<open>ShellCheck: ERROR - Invalid JSON in config: {e}\<close>
  \<^item> \<open>LogCommand s\<close>: \<open>ShellCheck: Command: {' '.join(cmd)}\<close>
  \<^item> \<open>ActiveRules n\<close>: \<open>ShellCheck: Active with {count} ignore rule(s)\<close>
  \<^item> \<open>Ignoring s\<close>: \<open>ShellCheck: Ignoring: {', '.join(self.ignore_codes)}\<close>
  \<^item> \<open>CreatedConfig p\<close>: \<open>ShellCheck: Created default config: {path}\<close>
  \<^item> \<open>ErrCreateFailed e\<close>: \<open>ShellCheck: ERROR - Config creation failed: {e}\<close>
  \<^item> \<open>OpenedConfig p\<close>: \<open>ShellCheck: Opened config file: {path}\<close>
\<close>

datatype log_event =
  FoundInPath pystr | UsingBundled pystr | WarnNotFound pystr | WarnCannotLocate exn
  | ErrReadFallback exn | ErrRead exn | ErrNotObject | ErrNotArray
  | WarnInvalidCodes "json list" | LoadedCodes "pystr list" | ErrInvalidJson exn
  | LogCommand pystr | ActiveRules nat | Ignoring pystr
  | CreatedConfig pystr | ErrCreateFailed exn | OpenedConfig pystr

section \<open>The environment of the \<open>ShellCheck\<close> class\<close>

text \<open>
  What the methods read from outside the repository: the module global \<open>__file__\<close>
  (\<open>None\<close> when the name is unbound), library functions whose result depends on the
  platform or the file system, and the host's settings directory.
  \<^item> \<open>which\<close>: \<open>shutil.which\<close>;
  \<^item> \<open>path_dirname\<close>, \<open>path_join\<close>: \<open>os.path.dirname\<close> and \<open>os.path.join\<close> on strings;
  \<^item> \<open>isfile\<close>: \<open>os.path.isfile\<close>;
  \<^item> \<open>settings_dir\<close>: \<open>app_path(APP_DIR_SETTINGS)\<close>;
  \<^item> \<open>read_utf8 p\<close>: opening \<open>p\<close> with \<open>encoding='utf-8'\<close> and iterating over it to the end:
    the decoded text after newline translation, or the exception raised;
  \<^item> \<open>read_default p\<close>: the same with the platform's default encoding;
  \<^item> \<open>json_loads\<close>: \<open>json.loads\<close>, the value or the exception raised;
  \<^item> \<open>float_repr\<close>: the text \<open>json.dump\<close> writes for a float;
  \<^item> \<open>print_exn l\<close>: the exception that \<open>print\<close> raises on the line \<open>l\<close>, if any (a console
    that cannot encode the line raises \<open>UnicodeEncodeError\<close>). \<open>_find_executable\<close>
    consults it for each of its lines; the other methods are modelled on a console that
    accepts their lines.
\<close>

datatype pyobj = PyStr pystr | PyNone

record env =
  which :: "pystr \<Rightarrow> pystr option"
  module_file :: "pyobj option"
  os_name :: pystr
  path_dirname :: "pystr \<Rightarrow> pystr"
  path_join :: "pystr \<Rightarrow> pystr list \<Rightarrow> pystr"
  isfile :: "pystr \<Rightarrow> bool"
  settings_dir :: pystr
  read_utf8 :: "pystr \<Rightarrow> exn + pystr"
  read_default :: "pystr \<Rightarrow> exn + pystr"
  json_loads :: "pystr \<Rightarrow> exn + json"
  float_repr :: "64 word \<Rightarrow> pystr"
  print_exn :: "log_event \<Rightarrow> exn option"

section \<open>Class \<open>ShellCheck\<close>\<close>

definition CONFIG_FILE :: pystr where
  "CONFIG_FILE = lit ''shellcheck_config.json''"

definition class_executable :: pystr where
  "class_executable = lit ''shellcheck''"

definition class_cmd :: "pystr list" where
  "class_cmd = [lit ''shellcheck'', lit ''-f'', lit ''gcc'', lit ''-'']"

subsection \<open>\<open>_parse_and_validate_codes\<close>\<close>

text \<open>
  The comprehension
  \<open>[c for c in codes if isinstance(c, str) and c.startswith('SC') and c[2:].isdigit()]\<close>.
\<close>

fun valid_codes :: "json list \<Rightarrow> pystr list" where
  "valid_codes [] = []"
| "valid_codes (JStr c # cs) =
     (if py_startswith c (lit ''SC'') \<and> py_isdigit (drop 2 c)
      then c # valid_codes cs else valid_codes cs)"
| "valid_codes (_ # cs) = valid_codes cs"

text \<open>
  \<open>[c for c in codes if c not in valid]\<close>: \<open>valid\<close> holds strings only, and no value of
  another type equals a string.
\<close>

definition invalid_codes :: "json list \<Rightarrow> pystr list \<Rightarrow> json list" where
  "invalid_codes codes valid = filter (\<lambda>c. c \<notin> set (map JStr valid)) codes"

text \<open>
  The result is the returned list with the lines printed, or the exception that leaves
  the method: only \<open>json.JSONDecodeError\<close> has a handler.
\<close>

definition parse_and_validate_codes ::
  "env \<Rightarrow> pystr \<Rightarrow> exn + (pystr list \<times> log_event list)" where
  "parse_and_validate_codes E content =
     (case json_loads E content of
        Inl e \<Rightarrow>
          if exn_class e = JSONDecodeError then Inr ([], [ErrInvalidJson e]) else Inl e
      | Inr config \<Rightarrow>
          (case config of
             JObj kvs \<Rightarrow>
               (case (case map_of kvs (lit ''ignore_codes'') of
                        None \<Rightarrow> JArr [] | Some v \<Rightarrow> v) of
                  JArr codes \<Rightarrow>
                    (let valid = valid_codes codes in
                     Inr (valid,
                          (if length valid \<noteq> length codes
                           then [WarnInvalidCodes (invalid_codes codes valid)] else [])
                          @ (if valid \<noteq> [] then [LoadedCodes valid] else [])))
                | _ \<Rightarrow> Inr ([], [ErrNotArray]))
           | _ \<Rightarrow> Inr ([], [ErrNotObject])))"

subsection \<open>\<open>_build_cmd\<close>\<close>

text \<open>The loop \<open>for code in self.ignore_codes: cmd.extend(['-e', code])\<close>.\<close>

fun extend_codes :: "pystr list \<Rightarrow> pystr list \<Rightarrow> pystr list" where
  "extend_codes cmd [] = cmd"
| "extend_codes cmd (code # codes) = extend_codes (cmd @ [lit ''-e'', code]) codes"

definition build_cmd :: "pystr \<Rightarrow> pystr list \<Rightarrow> pystr list \<times> log_event list" where
  "build_cmd shellcheck_path ignore_codes =
     (let cmd = extend_codes [shellcheck_path, lit ''-f'', lit ''gcc'', lit ''-''] ignore_codes
      in (cmd, [LogCommand (py_join (lit '' '') cmd)]))"

subsection \<open>\<open>_find_executable\<close>\<close>

text \<open>A \<open>print\<close> of the method: the line is written, or the exception leaves the \<open>print\<close>.\<close>

definition print_line :: "env \<Rightarrow> log_event \<Rightarrow> 'a \<Rightarrow> exn + ('a \<times> log_event list)" where
  "print_line E l result =
     (case print_exn E l of Some e \<Rightarrow> Inl e | None \<Rightarrow> Inr (result, [l]))"

text \<open>
  The body of the \<open>try\<close> block, with the value it returns (\<open>None\<close> when it runs to its end
  and the method goes on to \<open>return None\<close>). Reading \<open>__file__\<close> raises \<open>NameError\<close> when
  the name is unbound, \<open>os.path.dirname\<close> raises \<open>TypeError\<close> when its argument is \<open>None\<close>,
  and both \<open>print\<close> calls are inside the block.
\<close>

definition locate_bundled :: "env \<Rightarrow> exn + (pystr option \<times> log_event list)" where
  "locate_bundled E =
     (case module_file E of
        None \<Rightarrow> Inl (Exn NameError (lit ''name '' @ [39] @ lit ''__file__'' @ [39] @ lit '' is not defined''))
      | Some PyNone \<Rightarrow>
          Inl (Exn TypeError (lit ''expected str, bytes or os.PathLike object, not NoneType''))
      | Some (PyStr f) \<Rightarrow>
          (let base = path_dirname E (path_dirname E (path_dirname E f));
               exe = (if os_name E = lit ''nt'' then lit ''shellcheck.exe'' else lit ''shellcheck'');
               bundled = path_join E base [lit ''ShellCheck'', exe]
           in if isfile E bundled then print_line E (UsingBundled bundled) (Some bundled)
              else print_line E (WarnNotFound bundled) None))"

text \<open>
  The \<open>try\<close> statement: the handler is \<open>except (NameError, AttributeError)\<close>, and it prints
  the warning; any other exception of the body, and an exception of the handler's own
  \<open>print\<close>, leaves the method.
\<close>

definition try_bundled :: "env \<Rightarrow> exn + (pystr option \<times> log_event list)" where
  "try_bundled E =
     (case locate_bundled E of
        Inr r \<Rightarrow> Inr r
      | Inl e \<Rightarrow>
          if exn_class e = NameError \<or> exn_class e = AttributeError
          then print_line E (WarnCannotLocate e) None else Inl e)"

text \<open>
  \<open>if path := shutil.which('shellcheck')\<close> tests the truth value of the result, so
  \<open>None\<close> and the empty string both lead to the bundled copy. The \<open>print\<close> of the path
  found is outside the \<open>try\<close> statement.
\<close>

definition find_executable :: "env \<Rightarrow> exn + (pystr option \<times> log_event list)" where
  "find_executable E =
     (case which E (lit ''shellcheck'') of
        Some path \<Rightarrow>
          if path \<noteq> [] then print_line E (FoundInPath path) (Some path) else try_bundled E
      | None \<Rightarrow> try_bundled E)"

subsection \<open>\<open>_read_config_file\<close>\<close>

text \<open>Iterating over a text file yields its lines, each with its terminating newline.\<close>

fun file_lines :: "pystr \<Rightarrow> pystr list" where
  "file_lines [] = []"
| "file_lines (c # cs) =
     (if c = 10 then [c] # file_lines cs
      else (case file_lines cs of [] \<Rightarrow> [[c]] | l # ls \<Rightarrow> (c # l) # ls))"

text \<open>
  The condition of the comprehension,
  \<open>(s := ln.strip()) and not s.startswith(('//', '#'))\<close>.
\<close>

definition keep_line :: "pystr \<Rightarrow> bool" where
  "keep_line ln =
     (let s = py_strip ln in s \<noteq> [] \<and> \<not> py_startswith_any s [lit ''//'', lit ''#''])"

text \<open>The body of each \<open>with\<close> block: \<open>''.join(lines).strip()\<close>.\<close>

definition strip_comments :: "pystr \<Rightarrow> pystr" where
  "strip_comments text = py_strip (concat (filter keep_line (file_lines text)))"

text \<open>
  The result is \<open>None\<close> when the method returns \<open>None\<close>. The outer handlers are
  \<open>UnicodeDecodeError\<close>, then \<open>Exception\<close>; the fallback has the handler \<open>Exception\<close>.
\<close>

definition read_config_file :: "env \<Rightarrow> pystr \<Rightarrow> pystr option \<times> log_event list" where
  "read_config_file E path =
     (case read_utf8 E path of
        Inr text \<Rightarrow> (Some (strip_comments text), [])
      | Inl e \<Rightarrow>
          if exn_class e = UnicodeDecodeError
          then (case read_default E path of
                  Inr text \<Rightarrow> (Some (strip_comments text), [])
                | Inl e' \<Rightarrow> (None, [ErrReadFallback e']))
          else (None, [ErrRead e]))"

subsection \<open>\<open>_load_config\<close>\<close>

text \<open>\<open>if not content\<close> holds for \<open>None\<close> and for the empty string.\<close>

definition load_config :: "env \<Rightarrow> exn + (pystr list \<times> log_event list)" where
  "load_config E =
     (let path = path_join E (settings_dir E) [CONFIG_FILE] in
      if \<not> isfile E path then Inr ([], [])
      else (case read_config_file E path of
              (None, out) \<Rightarrow> Inr ([], out)
            | (Some content, out) \<Rightarrow>
                if content = [] then Inr ([], out)
                else (case parse_and_validate_codes E content of
                        Inl e \<Rightarrow> Inl e
                      | Inr (codes, out') \<Rightarrow> Inr (codes, out @ out'))))"

subsection \<open>\<open>_log_status\<close>\<close>

definition log_status :: "pystr list \<Rightarrow> log_event list" where
  "log_status ignore_codes =
     ActiveRules (length ignore_codes)
     # (if ignore_codes \<noteq> [] then [Ignoring (py_join (lit '', '') ignore_codes)] else [])"

subsection \<open>\<open>__init__\<close>\<close>

text \<open>
  The attributes an instance holds in its own dictionary; \<open>None\<close> is an attribute that is
  not set on the instance. \<open>executable\<close> and \<open>cmd\<close> are also class attributes, which a
  lookup returns while the instance has none of its own.
\<close>

record linter =
  executable_attr :: "pystr option"
  cmd_attr :: "pystr list option"
  shellcheck_path_attr :: "pystr option option"
  ignore_codes_attr :: "pystr list option"

definition get_executable :: "linter \<Rightarrow> pystr" where
  "get_executable L = (case executable_attr L of Some x \<Rightarrow> x | None \<Rightarrow> class_executable)"

definition get_cmd :: "linter \<Rightarrow> pystr list" where
  "get_cmd L = (case cmd_attr L of Some x \<Rightarrow> x | None \<Rightarrow> class_cmd)"

text \<open>
  \<open>L0\<close> is the instance as \<open>super().__init__(view)\<close> leaves it. The result is the
  instance with the lines printed, or the exception that leaves the constructor.
\<close>

definition init :: "env \<Rightarrow> linter \<Rightarrow> exn + (linter \<times> log_event list)" where
  "init E L0 =
     (case find_executable E of
        Inl e \<Rightarrow> Inl e
      | Inr (found, out1) \<Rightarrow>
          (let L1 = L0\<lparr>shellcheck_path_attr := Some found\<rparr> in
           case found of
             None \<Rightarrow> Inr (L1\<lparr>ignore_codes_attr := Some []\<rparr>, out1)
           | Some p \<Rightarrow>
               if p = [] then Inr (L1\<lparr>ignore_codes_attr := Some []\<rparr>, out1)
               else (case load_config E of
                       Inl e \<Rightarrow> Inl e
                     | Inr (codes, out2) \<Rightarrow>
                         (let L2 = L1\<lparr>ignore_codes_attr := Some codes\<rparr>;
                              L3 = L2\<lparr>executable_attr := Some p\<rparr>;
                              (cmd, out3) = build_cmd p codes;
                              L4 = L3\<lparr>cmd_attr := Some cmd\<rparr>
                          in Inr (L4, out1 @ out2 @ out3 @ log_status codes)))))"

subsection \<open>\<open>tmpfile\<close>\<close>

text \<open>\<open>p.rfind(c)\<close> for a single character: the last index of \<open>c\<close>, or \<open>-1\<close>.\<close>

definition rfind :: "pystr \<Rightarrow> nat \<Rightarrow> int" where
  "rfind p c =
     (if c \<in> set p then int (length p) - 1 - int (length (takeWhile (\<lambda>x. x \<noteq> c) (rev p)))
      else - 1)"

text \<open>
  \<open>genericpath._splitext\<close>, which \<open>os.path.splitext\<close> calls with the separators of the
  platform. The loop skips the leading dots of the last component; \<open>None\<close> is the loop
  running to its end without returning.
\<close>

function splitext_loop :: "pystr \<Rightarrow> int \<Rightarrow> int \<Rightarrow> (pystr \<times> pystr) option" where
  "splitext_loop p filenameIndex dotIndex =
     (if filenameIndex < dotIndex
      then (if take 1 (drop (nat filenameIndex) p) \<noteq> [46]
            then Some (take (nat dotIndex) p, drop (nat dotIndex) p)
            else splitext_loop p (filenameIndex + 1) dotIndex)
      else None)"
  by pat_completeness auto
termination
  by (relation "measure (\<lambda>(p, i, d). nat (d - i))") auto

definition generic_splitext :: "pystr \<Rightarrow> nat \<Rightarrow> nat option \<Rightarrow> pystr \<times> pystr" where
  "generic_splitext p sep altsep =
     (let sepIndex = (case altsep of
                        None \<Rightarrow> rfind p sep
                      | Some a \<Rightarrow> max (rfind p sep) (rfind p a));
          dotIndex = rfind p 46
      in if dotIndex > sepIndex
         then (case splitext_loop p (sepIndex + 1) dotIndex of
                 Some r \<Rightarrow> r
               | None \<Rightarrow> (p, []))
         else (p, []))"

text \<open>
  \<open>os.path\<close> is \<open>ntpath\<close> (separator backslash, alternative separator slash) when
  \<open>os.name\<close> is \<open>'nt'\<close>, and \<open>posixpath\<close> (separator slash) otherwise.
\<close>

definition os_path_splitext :: "pystr \<Rightarrow> pystr \<Rightarrow> pystr \<times> pystr" where
  "os_path_splitext osname p =
     (if osname = lit ''nt'' then generic_splitext p 92 (Some 47)
      else generic_splitext p 47 None)"

text \<open>
  \<open>super_tmpfile\<close> is the host's \<open>Linter.tmpfile\<close>; \<open>filename\<close> is \<open>self.filename\<close>.
\<close>

definition tmpfile ::
  "pystr \<Rightarrow> ('c \<Rightarrow> 'd \<Rightarrow> pystr \<Rightarrow> 'r) \<Rightarrow> pystr \<Rightarrow> 'c \<Rightarrow> 'd \<Rightarrow> pystr \<Rightarrow> 'r" where
  "tmpfile osname super_tmpfile filename cmd code suffix =
     (let ext = snd (os_path_splitext osname filename)
      in super_tmpfile cmd code (if ext \<noteq> [] then ext else lit ''.sh''))"

section \<open>Class \<open>Command\<close>\<close>

definition DEFAULT_CONFIG :: json where
  "DEFAULT_CONFIG =
     JObj [(lit ''ignore_codes'',
            JArr [JStr (lit ''SC2034''), JStr (lit ''SC2154''), JStr (lit ''SC2086'')])]"

subsection \<open>\<open>json.dump(obj, f, indent=2)\<close>\<close>

text \<open>
  The text the standard encoder writes with \<open>indent=2\<close> and its other defaults
  (\<open>ensure_ascii=True\<close>, item separator \<open>','\<close>, key separator \<open>': '\<close>, keys in the order
  of the dictionary).
\<close>

definition hex_digit :: "nat \<Rightarrow> nat" where
  "hex_digit d = (if d < 10 then 48 + d else 87 + d)"

definition hex4 :: "nat \<Rightarrow> pystr" where
  "hex4 n = map hex_digit [n div 4096 mod 16, n div 256 mod 16, n div 16 mod 16, n mod 16]"

text \<open>
  A character outside \<open>' '\<close> to \<open>'~'\<close>, a quote or a backslash is escaped; a character
  beyond the basic plane is written as a surrogate pair.
\<close>

definition escape_char :: "nat \<Rightarrow> pystr" where
  "escape_char c =
     (if c = 0x22 then [0x5C, 0x22]
      else if c = 0x5C then [0x5C, 0x5C]
      else if c = 0xA then [0x5C, 0x6E]
      else if c = 0xD then [0x5C, 0x72]
      else if c = 0x9 then [0x5C, 0x74]
      else if c = 0x8 then [0x5C, 0x62]
      else if c = 0xC then [0x5C, 0x66]
      else if 0x20 \<le> c \<and> c \<le> 0x7E then [c]
      else if c < 0x10000 then [0x5C, 0x75] @ hex4 c
      else [0x5C, 0x75] @ hex4 (0xD800 + (c - 0x10000) div 1024)
           @ [0x5C, 0x75] @ hex4 (0xDC00 + (c - 0x10000) mod 1024))"

definition encode_str :: "pystr \<Rightarrow> pystr" where
  "encode_str s = [0x22] @ concat (map escape_char s) @ [0x22]"

fun dec_digits :: "nat \<Rightarrow> pystr" where
  "dec_digits n = (if n < 10 then [48 + n] else dec_digits (n div 10) @ [48 + n mod 10])"

definition int_repr :: "int \<Rightarrow> pystr" where
  "int_repr i = (if i < 0 then 45 # dec_digits (nat (- i)) else dec_digits (nat i))"

definition newline_indent :: "nat \<Rightarrow> pystr" where
  "newline_indent level = 10 # replicate (2 * level) 32"

fun json_dump :: "(64 word \<Rightarrow> pystr) \<Rightarrow> nat \<Rightarrow> json \<Rightarrow> pystr" where
  "json_dump fr level JNull = lit ''null''"
| "json_dump fr level (JBool b) = (if b then lit ''true'' else lit ''false'')"
| "json_dump fr level (JInt i) = int_repr i"
| "json_dump fr level (JFloat w) = fr w"
| "json_dump fr level (JStr s) = encode_str s"
| "json_dump fr level (JArr xs) =
     (if xs = [] then lit ''[]''
      else lit ''['' @ newline_indent (level + 1)
           @ py_join (lit '','' @ newline_indent (level + 1))
               (map (json_dump fr (level + 1)) xs)
           @ newline_indent level @ lit '']'')"
| "json_dump fr level (JObj kvs) =
     (if kvs = [] then lit ''{}''
      else lit ''{'' @ newline_indent (level + 1)
           @ py_join (lit '','' @ newline_indent (level + 1))
               (map (\<lambda>kv. encode_str (fst kv) @ lit '': '' @ json_dump fr (level + 1) (snd kv)) kvs)
           @ newline_indent level @ lit ''}'')"

subsection \<open>The file system and the host editor\<close>

text \<open>
  \<open>msg_box(text, flags)\<close> and \<open>file_open(path)\<close> are requests to the host; the flags
  \<open>MB_OK | MB_ICONERROR\<close> are kept as the list of the constants combined.
\<close>

datatype mb_flag = MB_OK | MB_ICONERROR

datatype host_call = MsgBox pystr "mb_flag list" | FileOpen pystr

text \<open>
  The state \<open>Command.config\<close> acts on: the regular files with their text, the
  directories, the requests made to the host and the lines printed.
\<close>

record world =
  files :: "pystr \<Rightarrow> pystr option"
  dirs :: "pystr set"
  host_calls :: "host_call list"
  printed :: "log_event list"

text \<open>
  The two operations of the operating system that can fail, each returning the
  exception raised, if any, and the state it leaves:
  \<^item> \<open>makedirs d\<close>: \<open>os.makedirs(d, exist_ok=True)\<close>;
  \<^item> \<open>write_text p s\<close>: opening \<open>p\<close> for writing with \<open>encoding='utf-8'\<close>, writing \<open>s\<close>
    and closing the file.
\<close>

record os_ops =
  makedirs :: "pystr \<Rightarrow> world \<Rightarrow> exn option \<times> world"
  write_text :: "pystr \<Rightarrow> pystr \<Rightarrow> world \<Rightarrow> exn option \<times> world"

subsection \<open>\<open>config\<close>\<close>

text \<open>The handler \<open>except Exception as e\<close>: the dialog, the line printed, and \<open>return\<close>.\<close>

definition create_failed :: "exn \<Rightarrow> world \<Rightarrow> world" where
  "create_failed e w =
     w\<lparr>host_calls := host_calls w
          @ [MsgBox (lit ''Failed to create config:'' @ [10] @ exn_text e) [MB_OK, MB_ICONERROR]],
       printed := printed w @ [ErrCreateFailed e]\<rparr>"

text \<open>The last two statements: \<open>file_open(path)\<close> and the line printed.\<close>

definition open_config :: "pystr \<Rightarrow> world \<Rightarrow> world" where
  "open_config path w =
     w\<lparr>host_calls := host_calls w @ [FileOpen path],
       printed := printed w @ [OpenedConfig path]\<rparr>"

definition config :: "env \<Rightarrow> os_ops \<Rightarrow> world \<Rightarrow> world" where
  "config E ops w =
     (let path = path_join E (settings_dir E) [CONFIG_FILE] in
      if files w path = None
      then (case makedirs ops (path_dirname E path) w of
              (Some e, w1) \<Rightarrow> create_failed e w1
            | (None, w1) \<Rightarrow>
                (case write_text ops path (json_dump (float_repr E) 0 DEFAULT_CONFIG) w1 of
                   (Some e, w2) \<Rightarrow> create_failed e w2
                 | (None, w2) \<Rightarrow>
                     open_config path (w2\<lparr>printed := printed w2 @ [CreatedConfig path]\<rparr>)))
      else open_config path w)"

section \<open>The statements of the specification\<close>





text \<open>
  The pre-filter as the specification words it: lines whose trimmed content begins with
  \<open>//\<close> or \<open>#\<close> are discarded, blank lines are discarded, and the remaining lines are
  concatenated without a separator.
\<close>

definition is_comment_line :: "pystr \<Rightarrow> bool" where
  "is_comment_line ln =
     (py_startswith (py_strip ln) (lit ''//'') \<or> py_startswith (py_strip ln) (lit ''#''))"

definition is_blank_line :: "pystr \<Rightarrow> bool" where
  "is_blank_line ln = (py_strip ln = [])"

definition spec_prefilter :: "pystr \<Rightarrow> pystr" where
  "spec_prefilter text =
     concat (filter (\<lambda>ln. \<not> is_comment_line ln \<and> \<not> is_blank_line ln) (file_lines text))"




section \<open>Example environments\<close>

text \<open>\<open>posixpath.dirname\<close> and \<open>posixpath.join\<close>, for the POSIX examples.\<close>

definition posix_dirname :: "pystr \<Rightarrow> pystr" where
  "posix_dirname p =
     (let i = nat (rfind p 47 + 1); head = take i p
      in if head \<noteq> [] \<and> head \<noteq> replicate (length head) 47
         then rev (dropWhile (\<lambda>c. c = 47) (rev head)) else head)"

fun posix_join :: "pystr \<Rightarrow> pystr list \<Rightarrow> pystr" where
  "posix_join path [] = path"
| "posix_join path (b # bs) =
     (if py_startswith b [47] then posix_join b bs
      else if path = [] \<or> last path = 47 then posix_join (path @ b) bs
      else posix_join (path @ [47] @ b) bs)"

text \<open>
  The document of the specification's scenario,
  \<open>{"ignore_codes": ["SC2034", "sc2154", "SC99"]}\<close>, and the text of the file that holds
  it after a comment line.
\<close>

definition scenario_document :: pystr where
  "scenario_document =
     lit ''{'' @ [34] @ lit ''ignore_codes'' @ [34] @ lit '': ['' @ [34] @ lit ''SC2034'' @ [34]
     @ lit '', '' @ [34] @ lit ''sc2154'' @ [34] @ lit '', '' @ [34] @ lit ''SC99'' @ [34]
     @ lit '']}''"

definition scenario_file :: pystr where
  "scenario_file = lit ''// comment'' @ [10] @ scenario_document"

text \<open>
  Two more documents: \<open>{"ignore_codes": ["SC2034", "sc1", "SC2034"]}\<close>, in which a valid
  code occurs twice, and \<open>{"ignore_codes": ["SC?"]}\<close> with U+0662 (ARABIC-INDIC DIGIT TWO)
  in the place of the question mark.
\<close>

definition duplicate_document :: pystr where
  "duplicate_document =
     lit ''{'' @ [34] @ lit ''ignore_codes'' @ [34] @ lit '': ['' @ [34] @ lit ''SC2034'' @ [34]
     @ lit '', '' @ [34] @ lit ''sc1'' @ [34] @ lit '', '' @ [34] @ lit ''SC2034'' @ [34]
     @ lit '']}''"

definition unicode_document :: pystr where
  "unicode_document =
     lit ''{'' @ [34] @ lit ''ignore_codes'' @ [34] @ lit '': ['' @ [34] @ lit ''SC'' @ [0x662]
     @ [34] @ lit '']}''"

text \<open>
  The results of \<open>json.loads\<close> at the texts the examples use: the three documents, the
  texts \<open>{}\<close>, \<open>[]\<close> and \<open>{"ignore_codes": 5}\<close>, and, for every other text, the
  \<open>JSONDecodeError\<close> that \<open>json.loads\<close> raises for a text that begins with no JSON value;
  the other texts of the examples are of that kind (the empty text, a bare word, a text
  that begins with a no-break space).
\<close>

definition example_loads :: "pystr \<Rightarrow> exn + json" where
  "example_loads s =
     (if s = scenario_document
      then Inr (JObj [(lit ''ignore_codes'',
                       JArr [JStr (lit ''SC2034''), JStr (lit ''sc2154''), JStr (lit ''SC99'')])])
      else if s = duplicate_document
      then Inr (JObj [(lit ''ignore_codes'',
                       JArr [JStr (lit ''SC2034''), JStr (lit ''sc1''), JStr (lit ''SC2034'')])])
      else if s = unicode_document
      then Inr (JObj [(lit ''ignore_codes'', JArr [JStr (lit ''SC'' @ [0x662])])])
      else if s = lit ''{}'' then Inr (JObj [])
      else if s = lit ''[]'' then Inr (JArr [])
      else if s = lit ''{'' @ [34] @ lit ''ignore_codes'' @ [34] @ lit '': 5}''
      then Inr (JObj [(lit ''ignore_codes'', JInt 5)])
      else Inl (Exn JSONDecodeError (lit ''Expecting value: line 1 column 1 (char 0)'')))"

definition settings_path :: pystr where
  "settings_path = lit ''/home/user/.config/cudatext/settings''"

definition config_path :: pystr where
  "config_path = lit ''/home/user/.config/cudatext/settings/shellcheck_config.json''"

text \<open>
  A POSIX system with no \<open>shellcheck\<close> on the search path and no bundled copy, the
  plugin installed under \<open>/opt/cudatext/py\<close>, the scenario file as configuration, and a
  console that accepts every line.
\<close>

definition env_absent :: env where
  "env_absent =
     \<lparr>which = (\<lambda>_. None),
      module_file = Some (PyStr (lit ''/opt/cudatext/py/cuda_linter_shellcheck/linter.py'')),
      os_name = lit ''posix'',
      path_dirname = posix_dirname,
      path_join = posix_join,
      isfile = (\<lambda>p. p = config_path),
      settings_dir = settings_path,
      read_utf8 = (\<lambda>_. Inr scenario_file),
      read_default = (\<lambda>_. Inr scenario_file),
      json_loads = example_loads,
      float_repr = (\<lambda>_. lit ''0.0''),
      print_exn = (\<lambda>_. None)\<rparr>"

text \<open>The same system with \<open>shellcheck\<close> installed in \<open>/usr/bin\<close>.\<close>

definition env_found :: env where
  "env_found = env_absent\<lparr>which := (\<lambda>_. Some (lit ''/usr/bin/shellcheck''))\<rparr>"

text \<open>The name \<open>__file__\<close> unbound, and bound to \<open>None\<close>.\<close>

definition env_unbound :: env where
  "env_unbound = env_absent\<lparr>module_file := None\<rparr>"

definition env_file_none :: env where
  "env_file_none = env_absent\<lparr>module_file := Some PyNone\<rparr>"

text \<open>
  \<open>shellcheck\<close> installed and the configuration file empty; holding the bare word
  \<open>SC2034\<close>; holding \<open>[]\<close>; holding \<open>{"ignore_codes": 5}\<close>; and holding \<open>{}\<close> after a no-break space.
\<close>

definition env_empty_config :: env where
  "env_empty_config = env_found\<lparr>read_utf8 := (\<lambda>_. Inr [])\<rparr>"

definition env_bare_config :: env where
  "env_bare_config = env_found\<lparr>read_utf8 := (\<lambda>_. Inr (lit ''SC2034''))\<rparr>"

definition env_array_config :: env where
  "env_array_config = env_found\<lparr>read_utf8 := (\<lambda>_. Inr (lit ''[]''))\<rparr>"

definition env_number_config :: env where
  "env_number_config =
     env_found\<lparr>read_utf8 :=
       (\<lambda>_. Inr (lit ''{'' @ [34] @ lit ''ignore_codes'' @ [34] @ lit '': 5}''))\<rparr>"

definition env_nbsp_config :: env where
  "env_nbsp_config = env_found\<lparr>read_utf8 := (\<lambda>_. Inr ([0xA0] @ lit ''{}'' @ [10]))\<rparr>"



text \<open>
  No \<open>shellcheck\<close> on the search path, the plugin installed under a directory whose name
  holds the lone surrogate U+DC80 (what \<open>os.fsdecode\<close> makes of a byte that is not UTF-8),
  and a console with a strict UTF-8 encoder: the \<open>print\<close> of the warning that names the
  bundled path raises \<open>UnicodeEncodeError\<close>; the surrogate is character 53 of that line.
\<close>

definition surrogate_file :: pystr where
  "surrogate_file =
     lit ''/opt/cuda'' @ [0xDC80] @ lit ''text/py/cuda_linter_shellcheck/linter.py''"

definition surrogate_bundled :: pystr where
  "surrogate_bundled = lit ''/opt/cuda'' @ [0xDC80] @ lit ''text/ShellCheck/shellcheck''"

definition surrogate_error :: exn where
  "surrogate_error =
     Exn UnicodeEncodeError
       ([39] @ lit ''utf-8'' @ [39] @ lit '' codec can'' @ [39] @ lit ''t encode character ''
        @ [39, 92] @ lit ''udc80'' @ [39] @ lit '' in position 53: surrogates not allowed'')"

definition env_surrogate :: env where
  "env_surrogate =
     env_absent\<lparr>module_file := Some (PyStr surrogate_file),
       print_exn := (\<lambda>l. if l = WarnNotFound surrogate_bundled then Some surrogate_error
                          else None)\<rparr>"

text \<open>A fresh instance: no attribute of its own.\<close>

definition fresh_linter :: linter where
  "fresh_linter =
     \<lparr>executable_attr = None, cmd_attr = None,
      shellcheck_path_attr = None, ignore_codes_attr = None\<rparr>"




section \<open>Verification\<close>

subsection \<open>Auxiliary facts\<close>

lemma extend_codes_append:
  "extend_codes cmd codes = cmd @ concat (map (\<lambda>c. [lit ''-e'', c]) codes)"
  by (induction codes arbitrary: cmd) simp_all










lemma find_executable_cases:
  "find_executable E =
     (if which E (lit ''shellcheck'') \<noteq> None \<and> which E (lit ''shellcheck'') \<noteq> Some []
      then print_line E (FoundInPath (the (which E (lit ''shellcheck''))))
             (which E (lit ''shellcheck''))
      else try_bundled E)"
  by (auto simp: find_executable_def split: option.splits)

lemma print_line_out:
  "print_line E l x = Inr (r, out) \<Longrightarrow> out = [l] \<and> r = x \<and> print_exn E l = None"
  by (auto simp: print_line_def split: option.splits)

lemma print_line_raises: "print_line E l x = Inl e \<Longrightarrow> print_exn E l = Some e"
  by (auto simp: print_line_def split: option.splits)

lemma print_line_ok: "print_exn E l = None \<Longrightarrow> print_line E l x = Inr (x, [l])"
  by (simp add: print_line_def)

lemma locate_bundled_out:
  "locate_bundled E = Inr (r, out) \<Longrightarrow> LogCommand c \<notin> set out"
  by (auto simp: locate_bundled_def Let_def split: option.splits pyobj.splits if_splits
        dest!: print_line_out)

lemma try_bundled_out:
  "try_bundled E = Inr (r, out) \<Longrightarrow> LogCommand c \<notin> set out"
  by (auto simp: try_bundled_def split: sum.splits if_splits
        dest: locate_bundled_out dest!: print_line_out)

lemma find_executable_out:
  "find_executable E = Inr (r, out) \<Longrightarrow> LogCommand c \<notin> set out"
  by (auto simp: find_executable_cases split: if_splits
        dest: try_bundled_out dest!: print_line_out)

lemma locate_bundled_raises:
  "locate_bundled E = Inl e \<Longrightarrow>
     (module_file E = None \<and> exn_class e = NameError)
     \<or> (module_file E = Some PyNone \<and> exn_class e = TypeError)
     \<or> (\<exists>l. print_exn E l = Some e)"
  by (auto simp: locate_bundled_def Let_def split: option.splits pyobj.splits if_splits
        dest: print_line_raises)

lemma concat_file_lines: "concat (file_lines s) = s"
  by (induction s) (auto split: list.splits)

lemma keep_line_spec: "keep_line ln \<longleftrightarrow> \<not> is_comment_line ln \<and> \<not> is_blank_line ln"
  by (auto simp: keep_line_def Let_def is_comment_line_def is_blank_line_def
        py_startswith_any_def)

lemma strip_comments_spec: "strip_comments text = py_strip (spec_prefilter text)"
proof -
  have "filter keep_line (file_lines text)
        = filter (\<lambda>ln. \<not> is_comment_line ln \<and> \<not> is_blank_line ln) (file_lines text)"
    by (rule filter_cong) (simp_all add: keep_line_spec)
  then show ?thesis by (simp add: strip_comments_def spec_prefilter_def)
qed


lemma which_env_unbound: "which env_unbound x = None"
  by (simp add: env_unbound_def env_absent_def)

lemma locate_env_unbound:
  "locate_bundled env_unbound
     = Inl (Exn NameError (lit ''name '' @ [39] @ lit ''__file__'' @ [39] @ lit '' is not defined''))"
  by (simp add: locate_bundled_def env_unbound_def env_absent_def)

lemma find_env_unbound:
  "find_executable env_unbound
     = Inr (None, [WarnCannotLocate
         (Exn NameError (lit ''name '' @ [39] @ lit ''__file__'' @ [39] @ lit '' is not defined''))])"
  by (simp add: find_executable_cases try_bundled_def print_line_def which_env_unbound
        locate_env_unbound)
    (simp add: env_unbound_def env_absent_def)

lemma posix_join_settings: "posix_join settings_path [CONFIG_FILE] = config_path"
  by (simp add: settings_path_def CONFIG_FILE_def config_path_def lit_def py_startswith_def)

lemma strip_comments_scenario: "strip_comments scenario_file = scenario_document"
  by (simp add: strip_comments_def scenario_file_def scenario_document_def keep_line_def
        py_strip_def py_lstrip_def py_rstrip_def py_isspace_def py_whitespace_def
        py_startswith_any_def py_startswith_def lit_def Let_def)

lemma parse_result_id:
  "(case r of Inl e \<Rightarrow> Inl e | Inr (codes, out') \<Rightarrow> Inr (codes, [] @ out')) = r"
  by (cases r) (auto split: prod.splits)

lemma load_config_read:
  assumes "isfile E (path_join E (settings_dir E) [CONFIG_FILE])"
    and "read_utf8 E (path_join E (settings_dir E) [CONFIG_FILE]) = Inr t"
  shows "load_config E
         = (if strip_comments t = [] then Inr ([], [])
            else parse_and_validate_codes E (strip_comments t))"
  using assms by (simp add: load_config_def read_config_file_def Let_def parse_result_id)

lemma load_config_cases:
  assumes "isfile E (path_join E (settings_dir E) [CONFIG_FILE])"
    and "read_config_file E (path_join E (settings_dir E) [CONFIG_FILE]) = (Some content, out)"
  shows "load_config E
         = (if content = [] then Inr ([], out)
            else (case parse_and_validate_codes E content of
                    Inl e \<Rightarrow> Inl e
                  | Inr (codes, out') \<Rightarrow> Inr (codes, out @ out')))"
  using assms by (simp add: load_config_def Let_def)

lemmas env_defs =
  env_empty_config_def env_bare_config_def env_array_config_def env_number_config_def
  env_nbsp_config_def env_found_def env_absent_def

lemmas strip_defs =
  strip_comments_def keep_line_def py_strip_def py_lstrip_def py_rstrip_def py_isspace_def
  py_whitespace_def py_startswith_any_def py_startswith_def lit_def Let_def

lemma isfile_envs:
  "isfile env_found (path_join env_found (settings_dir env_found) [CONFIG_FILE])"
  "isfile env_empty_config (path_join env_empty_config (settings_dir env_empty_config) [CONFIG_FILE])"
  "isfile env_bare_config (path_join env_bare_config (settings_dir env_bare_config) [CONFIG_FILE])"
  "isfile env_array_config (path_join env_array_config (settings_dir env_array_config) [CONFIG_FILE])"
  "isfile env_number_config (path_join env_number_config (settings_dir env_number_config) [CONFIG_FILE])"
  "isfile env_nbsp_config (path_join env_nbsp_config (settings_dir env_nbsp_config) [CONFIG_FILE])"
  by (simp_all add: env_defs posix_join_settings del: posix_join.simps)

lemma read_envs:
  "read_config_file env_found (path_join env_found (settings_dir env_found) [CONFIG_FILE])
     = (Some scenario_document, [])"
  "read_config_file env_empty_config
     (path_join env_empty_config (settings_dir env_empty_config) [CONFIG_FILE]) = (Some [], [])"
  "read_config_file env_bare_config
     (path_join env_bare_config (settings_dir env_bare_config) [CONFIG_FILE])
     = (Some (lit ''SC2034''), [])"
  "read_config_file env_array_config
     (path_join env_array_config (settings_dir env_array_config) [CONFIG_FILE])
     = (Some (lit ''[]''), [])"
  "read_config_file env_number_config
     (path_join env_number_config (settings_dir env_number_config) [CONFIG_FILE])
     = (Some (lit ''{'' @ [34] @ lit ''ignore_codes'' @ [34] @ lit '': 5}''), [])"
  "read_config_file env_nbsp_config
     (path_join env_nbsp_config (settings_dir env_nbsp_config) [CONFIG_FILE])
     = (Some (lit ''{}''), [])"
       apply (simp add: read_config_file_def env_defs strip_comments_scenario del: posix_join.simps)
      apply (simp_all add: read_config_file_def env_defs strip_defs del: posix_join.simps)
  done

lemma loads_envs:
  "json_loads env_found scenario_document
     = Inr (JObj [(lit ''ignore_codes'',
                   JArr [JStr (lit ''SC2034''), JStr (lit ''sc2154''), JStr (lit ''SC99'')])])"
  "json_loads env_empty_config []
     = Inl (Exn JSONDecodeError (lit ''Expecting value: line 1 column 1 (char 0)''))"
  "json_loads env_bare_config (lit ''SC2034'')
     = Inl (Exn JSONDecodeError (lit ''Expecting value: line 1 column 1 (char 0)''))"
  "json_loads env_array_config (lit ''[]'') = Inr (JArr [])"
  "json_loads env_number_config (lit ''{'' @ [34] @ lit ''ignore_codes'' @ [34] @ lit '': 5}'')
     = Inr (JObj [(lit ''ignore_codes'', JInt 5)])"
  "json_loads env_nbsp_config (lit ''{}'') = Inr (JObj [])"
  "json_loads env_nbsp_config ([0xA0] @ lit ''{}'' @ [10])
     = Inl (Exn JSONDecodeError (lit ''Expecting value: line 1 column 1 (char 0)''))"
        apply (simp add: env_defs example_loads_def)
       apply (simp_all add: env_defs example_loads_def scenario_document_def
        duplicate_document_def unicode_document_def lit_def)
  done

lemma cp_envs:
  "path_join env_found (settings_dir env_found) [CONFIG_FILE] = config_path"
  "path_join env_nbsp_config (settings_dir env_nbsp_config) [CONFIG_FILE] = config_path"
  by (simp_all add: env_defs posix_join_settings del: posix_join.simps)

lemma read_utf8_envs:
  "read_utf8 env_found config_path = Inr scenario_file"
  "read_utf8 env_nbsp_config config_path = Inr ([0xA0] @ lit ''{}'' @ [10])"
  by (simp_all add: env_defs)

lemma parse_scenario:
  "parse_and_validate_codes env_found scenario_document
     = Inr ([lit ''SC2034'', lit ''SC99''],
            [WarnInvalidCodes [JStr (lit ''sc2154'')],
             LoadedCodes [lit ''SC2034'', lit ''SC99'']])"
  by (simp add: parse_and_validate_codes_def loads_envs(1) invalid_codes_def Let_def
        py_startswith_def py_isdigit_def unicode_digit_def digit_ranges_def lit_def)

lemma load_config_found:
  "load_config env_found
     = Inr ([lit ''SC2034'', lit ''SC99''],
            [WarnInvalidCodes [JStr (lit ''sc2154'')],
             LoadedCodes [lit ''SC2034'', lit ''SC99'']])"
proof -
  have "scenario_document \<noteq> []" by (simp add: scenario_document_def lit_def)
  then show ?thesis
    by (simp add: load_config_cases [OF isfile_envs(1) read_envs(1)] parse_scenario)
qed

lemma load_config_nbsp: "load_config env_nbsp_config = Inr ([], [])"
proof -
  have "parse_and_validate_codes env_nbsp_config (lit ''{}'') = Inr ([], [])"
    by (simp add: parse_and_validate_codes_def loads_envs(6))
  moreover have "lit ''{}'' \<noteq> []" by (simp add: lit_def)
  ultimately show ?thesis
    by (simp add: load_config_cases [OF isfile_envs(6) read_envs(6)])
qed

lemma find_env_found:
  "find_executable env_found
     = Inr (Some (lit ''/usr/bin/shellcheck''), [FoundInPath (lit ''/usr/bin/shellcheck'')])"
  by (simp add: find_executable_def print_line_def env_found_def env_absent_def lit_def)

lemma init_found_ex: "\<exists>L out'. init env_found fresh_linter = Inr (L, out')"
proof -
  have "lit ''/usr/bin/shellcheck'' \<noteq> []" by (simp add: lit_def)
  then show ?thesis
    by (simp add: init_def find_env_found load_config_found Let_def split: prod.splits)
qed

lemma splitext_examples:
  "os_path_splitext (lit ''posix'') (lit ''deploy.bash'') = (lit ''deploy'', lit ''.bash'')"
  "os_path_splitext (lit ''posix'') (lit ''Makefile'') = (lit ''Makefile'', [])"
  by (simp_all add: os_path_splitext_def generic_splitext_def rfind_def lit_def Let_def
        splitext_loop.simps)











lemma bundled_surrogate:
  "posix_join (posix_dirname (posix_dirname (posix_dirname surrogate_file)))
     [lit ''ShellCheck'', lit ''shellcheck''] = surrogate_bundled"
  by (simp add: posix_dirname_def rfind_def Let_def surrogate_file_def surrogate_bundled_def
        lit_def py_startswith_def)

lemma locate_env_surrogate: "locate_bundled env_surrogate = Inl surrogate_error"
proof -
  have 1: "lit ''posix'' \<noteq> lit ''nt''" by (simp add: lit_def)
  have 2: "surrogate_bundled \<noteq> config_path"
    by (simp add: surrogate_bundled_def config_path_def lit_def)
  show ?thesis
    by (simp add: locate_bundled_def env_surrogate_def env_absent_def Let_def print_line_def
          1 2 bundled_surrogate del: posix_join.simps)
qed

lemma which_env_surrogate: "which env_surrogate x = None"
  by (simp add: env_surrogate_def env_absent_def)

subsection \<open>The claims\<close>




text \<open>
  Claim C2, as amended. When nothing is found on the search path and the computation of
  the bundled path raises: a \<open>NameError\<close> or an \<open>AttributeError\<close> is caught inside the
  locator, printed as a warning and treated as "not found" (the warning itself being
  printed without error); an exception of any other class is not caught and leaves the
  locator unchanged. In particular an unbound \<open>__file__\<close> gives "not found". The locator
  returns a path or the absent value whenever \<open>__file__\<close> is unbound or a string and the
  console accepts every line.
\<close>

theorem find_executable_catches:
  "((which E (lit ''shellcheck'') = None \<or> which E (lit ''shellcheck'') = Some [])
      \<and> locate_bundled E = Inl e \<and> (exn_class e = NameError \<or> exn_class e = AttributeError)
      \<and> print_exn E (WarnCannotLocate e) = None
      \<longrightarrow> find_executable E = Inr (None, [WarnCannotLocate e]))
   \<and> ((which E (lit ''shellcheck'') = None \<or> which E (lit ''shellcheck'') = Some [])
      \<and> locate_bundled E = Inl e \<and> exn_class e \<noteq> NameError \<and> exn_class e \<noteq> AttributeError
      \<longrightarrow> find_executable E = Inl e)
   \<and> ((which E (lit ''shellcheck'') = None \<or> which E (lit ''shellcheck'') = Some [])
      \<and> module_file E = None \<and> (\<forall>l. print_exn E l = None)
      \<longrightarrow> (\<exists>e'. exn_class e' = NameError
             \<and> find_executable E = Inr (None, [WarnCannotLocate e'])))
   \<and> (module_file E \<noteq> Some PyNone \<and> (\<forall>l. print_exn E l = None)
      \<longrightarrow> (\<exists>r out. find_executable E = Inr (r, out)))"
proof (intro conjI impI)
  assume "(which E (lit ''shellcheck'') = None \<or> which E (lit ''shellcheck'') = Some [])
      \<and> locate_bundled E = Inl e \<and> (exn_class e = NameError \<or> exn_class e = AttributeError)
      \<and> print_exn E (WarnCannotLocate e) = None"
  then show "find_executable E = Inr (None, [WarnCannotLocate e])"
    by (auto simp: find_executable_cases try_bundled_def print_line_def)
next
  assume "(which E (lit ''shellcheck'') = None \<or> which E (lit ''shellcheck'') = Some [])
      \<and> locate_bundled E = Inl e \<and> exn_class e \<noteq> NameError \<and> exn_class e \<noteq> AttributeError"
  then show "find_executable E = Inl e"
    by (auto simp: find_executable_cases try_bundled_def)
next
  assume a: "(which E (lit ''shellcheck'') = None \<or> which E (lit ''shellcheck'') = Some [])
      \<and> module_file E = None \<and> (\<forall>l. print_exn E l = None)"
  let ?e = "Exn NameError (lit ''name '' @ [39] @ lit ''__file__'' @ [39] @ lit '' is not defined'')"
  from a have "locate_bundled E = Inl ?e" by (simp add: locate_bundled_def)
  with a have "find_executable E = Inr (None, [WarnCannotLocate ?e])"
    by (auto simp: find_executable_cases try_bundled_def print_line_def)
  moreover have "exn_class ?e = NameError" by simp
  ultimately show "\<exists>e'. exn_class e' = NameError
             \<and> find_executable E = Inr (None, [WarnCannotLocate e'])" by blast
next
  assume a: "module_file E \<noteq> Some PyNone \<and> (\<forall>l. print_exn E l = None)"
  then have p: "\<And>l x. print_line E l x = Inr (x, [l])" by (simp add: print_line_def)
  have t: "\<exists>r out. try_bundled E = Inr (r, out)"
  proof (cases "locate_bundled E")
    case (Inl e)
    with a locate_bundled_raises [OF Inl] show ?thesis
      by (auto simp: try_bundled_def p)
  next
    case (Inr r)
    then show ?thesis by (cases r) (auto simp: try_bundled_def)
  qed
  then show "\<exists>r out. find_executable E = Inr (r, out)"
    by (auto simp: find_executable_cases p)
qed

theorem find_executable_catches_witness:
  "find_executable env_unbound
     = Inr (None, [WarnCannotLocate
         (Exn NameError (lit ''name '' @ [39] @ lit ''__file__'' @ [39] @ lit '' is not defined''))])
   \<and> locate_bundled env_surrogate = Inl surrogate_error
   \<and> find_executable env_surrogate = Inl surrogate_error
   \<and> (\<exists>r out. find_executable env_absent = Inr (r, out))"
proof -
  let ?e = "Exn NameError (lit ''name '' @ [39] @ lit ''__file__'' @ [39] @ lit '' is not defined'')"
  note t = find_executable_catches
  have c: "exn_class ?e = NameError" by simp
  have p: "print_exn env_unbound (WarnCannotLocate ?e) = None"
    by (simp add: env_unbound_def env_absent_def)
  from t [of env_unbound ?e] which_env_unbound locate_env_unbound c p
  have 1: "find_executable env_unbound = Inr (None, [WarnCannotLocate ?e])" by blast
  have s: "exn_class surrogate_error \<noteq> NameError \<and> exn_class surrogate_error \<noteq> AttributeError"
    by (simp add: surrogate_error_def)
  from t [of env_surrogate surrogate_error] which_env_surrogate locate_env_surrogate s
  have 2: "find_executable env_surrogate = Inl surrogate_error" by blast
  have m: "module_file env_absent \<noteq> Some PyNone \<and> (\<forall>l. print_exn env_absent l = None)"
    by (simp add: env_absent_def)
  from t [of env_absent] m
  have 3: "\<exists>r out. find_executable env_absent = Inr (r, out)" by blast
  from 1 locate_env_surrogate 2 3 show ?thesis by blast
qed

text \<open>
  Claim C2 as stated fails: with no \<open>shellcheck\<close> on the search path, the plugin installed
  under a directory whose name holds a lone surrogate and a console with a strict UTF-8
  encoder, the \<open>print\<close> of the warning inside the \<open>try\<close> block raises \<open>UnicodeEncodeError\<close>,
  which \<open>except (NameError, AttributeError)\<close> does not catch, and the locator raises. It
  raises too when \<open>__file__\<close> is bound to \<open>None\<close>, on the \<open>TypeError\<close> of \<open>os.path.dirname\<close>.
\<close>

theorem find_executable_none_counterexample:
  "module_file env_surrogate = Some (PyStr surrogate_file)
   \<and> find_executable env_surrogate = Inl surrogate_error
   \<and> exn_class surrogate_error = UnicodeEncodeError
   \<and> find_executable env_file_none
       = Inl (Exn TypeError (lit ''expected str, bytes or os.PathLike object, not NoneType''))"
proof -
  have 1: "module_file env_surrogate = Some (PyStr surrogate_file)"
    by (simp add: env_surrogate_def)
  have 2: "find_executable env_surrogate = Inl surrogate_error"
    by (simp add: find_executable_cases try_bundled_def which_env_surrogate
          locate_env_surrogate surrogate_error_def)
  have 3: "exn_class surrogate_error = UnicodeEncodeError" by (simp add: surrogate_error_def)
  have 4: "find_executable env_file_none
       = Inl (Exn TypeError (lit ''expected str, bytes or os.PathLike object, not NoneType''))"
    by (simp add: find_executable_def try_bundled_def locate_bundled_def env_file_none_def
          env_absent_def)
  from 1 2 3 4 show ?thesis by blast
qed

text \<open>
  Claim C3. For every path \<open>P\<close> and every sequence of codes, the command built is exactly
  \<open>[P, "-f", "gcc", "-"]\<close> followed by the pair \<open>["-e", code]\<close> for each code, in the order
  of the sequence; the only other effect is the line that prints the command.
\<close>

theorem build_cmd_tokens:
  "fst (build_cmd P codes)
     = [P, lit ''-f'', lit ''gcc'', lit ''-''] @ concat (map (\<lambda>code. [lit ''-e'', code]) codes)
   \<and> snd (build_cmd P codes) = [LogCommand (py_join (lit '' '') (fst (build_cmd P codes)))]"
  by (simp add: build_cmd_def Let_def extend_codes_append)

theorem build_cmd_tokens_witness:
  "fst (build_cmd (lit ''/usr/bin/shellcheck'') [lit ''SC2034'', lit ''SC99''])
     = [lit ''/usr/bin/shellcheck'', lit ''-f'', lit ''gcc'', lit ''-'',
        lit ''-e'', lit ''SC2034'', lit ''-e'', lit ''SC99'']"
  using build_cmd_tokens [of "lit ''/usr/bin/shellcheck''" "[lit ''SC2034'', lit ''SC99'']"]
  by simp

text \<open>
  Claim C4, as amended. When the configuration file exists and is read, the loader
  returns the empty sequence without raising in each of these cases: the stripped
  content is empty (nothing is printed beyond the lines of the read); \<open>json.loads\<close>
  rejects the non-empty content with \<open>JSONDecodeError\<close> (the error is printed); the value
  parsed is not an object (an error is printed); the object's \<open>ignore_codes\<close> is not an
  array (an error is printed).
\<close>

theorem load_config_malformed:
  assumes "isfile E (path_join E (settings_dir E) [CONFIG_FILE])"
    and "read_config_file E (path_join E (settings_dir E) [CONFIG_FILE]) = (Some content, out)"
  shows "(content = [] \<longrightarrow> load_config E = Inr ([], out))
     \<and> (content \<noteq> [] \<and> json_loads E content = Inl e \<and> exn_class e = JSONDecodeError
          \<longrightarrow> load_config E = Inr ([], out @ [ErrInvalidJson e]))
     \<and> (content \<noteq> [] \<and> json_loads E content = Inr v \<and> (\<forall>kvs. v \<noteq> JObj kvs)
          \<longrightarrow> load_config E = Inr ([], out @ [ErrNotObject]))
     \<and> (content \<noteq> [] \<and> json_loads E content = Inr (JObj kvs)
          \<and> map_of kvs (lit ''ignore_codes'') = Some v' \<and> (\<forall>cs. v' \<noteq> JArr cs)
          \<longrightarrow> load_config E = Inr ([], out @ [ErrNotArray]))"
proof (intro conjI impI)
  assume "content = []"
  then show "load_config E = Inr ([], out)"
    by (simp add: load_config_cases [OF assms])
next
  assume "content \<noteq> [] \<and> json_loads E content = Inl e \<and> exn_class e = JSONDecodeError"
  then show "load_config E = Inr ([], out @ [ErrInvalidJson e])"
    by (simp add: load_config_cases [OF assms] parse_and_validate_codes_def)
next
  assume a: "content \<noteq> [] \<and> json_loads E content = Inr v \<and> (\<forall>kvs. v \<noteq> JObj kvs)"
  then have "parse_and_validate_codes E content = Inr ([], [ErrNotObject])"
    by (cases v) (simp_all add: parse_and_validate_codes_def)
  with a show "load_config E = Inr ([], out @ [ErrNotObject])"
    by (simp add: load_config_cases [OF assms])
next
  assume a: "content \<noteq> [] \<and> json_loads E content = Inr (JObj kvs)
          \<and> map_of kvs (lit ''ignore_codes'') = Some v' \<and> (\<forall>cs. v' \<noteq> JArr cs)"
  then have "parse_and_validate_codes E content = Inr ([], [ErrNotArray])"
    by (cases v') (simp_all add: parse_and_validate_codes_def)
  with a show "load_config E = Inr ([], out @ [ErrNotArray])"
    by (simp add: load_config_cases [OF assms])
qed

theorem load_config_malformed_witness:
  "load_config env_empty_config = Inr ([], [])
   \<and> load_config env_bare_config
       = Inr ([], [ErrInvalidJson
           (Exn JSONDecodeError (lit ''Expecting value: line 1 column 1 (char 0)''))])
   \<and> load_config env_array_config = Inr ([], [ErrNotObject])
   \<and> load_config env_number_config = Inr ([], [ErrNotArray])"
proof -
  let ?e = "Exn JSONDecodeError (lit ''Expecting value: line 1 column 1 (char 0)'')"
  have 1: "load_config env_empty_config = Inr ([], [])"
    using load_config_malformed [OF isfile_envs(2) read_envs(2)] by simp
  have n2: "lit ''SC2034'' \<noteq> []" by (simp add: lit_def)
  have 2: "load_config env_bare_config = Inr ([], [ErrInvalidJson ?e])"
    using load_config_malformed [OF isfile_envs(3) read_envs(3), where e = ?e] loads_envs(3) n2
    by simp
  have n3: "lit ''[]'' \<noteq> []" by (simp add: lit_def)
  have 3: "load_config env_array_config = Inr ([], [ErrNotObject])"
    using load_config_malformed [OF isfile_envs(4) read_envs(4), where v = "JArr []"]
      loads_envs(4) n3 by simp
  have 4: "load_config env_number_config = Inr ([], [ErrNotArray])"
    using load_config_malformed [OF isfile_envs(5) read_envs(5),
        where kvs = "[(lit ''ignore_codes'', JInt 5)]" and v' = "JInt 5"] loads_envs(5)
    by simp
  from 1 2 3 4 show ?thesis by blast
qed

text \<open>
  Claim C4 as stated fails: for an empty configuration file the stripped content is the
  empty text, which is not valid JSON, and the loader returns the empty sequence without
  printing anything.
\<close>

theorem load_config_silent_counterexample:
  "isfile env_empty_config (path_join env_empty_config (settings_dir env_empty_config) [CONFIG_FILE])
   \<and> read_config_file env_empty_config
        (path_join env_empty_config (settings_dir env_empty_config) [CONFIG_FILE]) = (Some [], [])
   \<and> json_loads env_empty_config []
       = Inl (Exn JSONDecodeError (lit ''Expecting value: line 1 column 1 (char 0)''))
   \<and> load_config env_empty_config = Inr ([], [])"
  using isfile_envs(2) read_envs(2) loads_envs(2)
    load_config_cases [OF isfile_envs(2) read_envs(2)] by simp

text \<open>
  Claim C5. When the locator returns the absent value, the constructor returns normally:
  it stores the absent path, sets the ignore codes to the empty list, leaves every other
  attribute as it was (so no command is stored), and prints nothing beyond the lines of
  the locator, none of which is the line of the command builder.
\<close>

theorem init_disabled:
  "find_executable E = Inr (None, out) \<Longrightarrow>
     init E L0 = Inr (L0\<lparr>shellcheck_path_attr := Some None, ignore_codes_attr := Some []\<rparr>, out)
     \<and> (\<forall>c. LogCommand c \<notin> set out)"
  by (auto simp: init_def Let_def dest: find_executable_out)

theorem init_disabled_witness:
  "find_executable env_unbound
     = Inr (None, [WarnCannotLocate
         (Exn NameError (lit ''name '' @ [39] @ lit ''__file__'' @ [39] @ lit '' is not defined''))])
   \<and> init env_unbound fresh_linter
       = Inr (fresh_linter\<lparr>shellcheck_path_attr := Some None, ignore_codes_attr := Some []\<rparr>,
              [WarnCannotLocate
                (Exn NameError (lit ''name '' @ [39] @ lit ''__file__'' @ [39] @ lit '' is not defined''))])"
  using init_disabled [OF find_env_unbound, of fresh_linter] find_env_unbound by blast

text \<open>
  Claim C6, as amended. When the configuration file is read (as UTF-8, or with the
  default encoding after a \<open>UnicodeDecodeError\<close>), every line whose trimmed content begins
  with \<open>//\<close> or \<open>#\<close> is discarded, every blank line is discarded, and the remaining lines
  are concatenated without a separator; the lines of the file are a partition of its
  text. The concatenation is then trimmed of leading and trailing whitespace, and the
  trimmed text is what is parsed as JSON, unless it is empty, in which case nothing is
  parsed and the loader returns the empty sequence.
\<close>

theorem read_config_prefilter:
  "(read_utf8 E path = Inr t
      \<longrightarrow> read_config_file E path = (Some (py_strip (spec_prefilter t)), []))
   \<and> (read_utf8 E path = Inl e \<and> exn_class e = UnicodeDecodeError \<and> read_default E path = Inr t
      \<longrightarrow> read_config_file E path = (Some (py_strip (spec_prefilter t)), []))
   \<and> concat (file_lines t) = t
   \<and> (isfile E (path_join E (settings_dir E) [CONFIG_FILE])
      \<and> read_utf8 E (path_join E (settings_dir E) [CONFIG_FILE]) = Inr t
      \<longrightarrow> load_config E
          = (if py_strip (spec_prefilter t) = [] then Inr ([], [])
             else parse_and_validate_codes E (py_strip (spec_prefilter t))))"
proof (intro conjI impI)
  assume "read_utf8 E path = Inr t"
  then show "read_config_file E path = (Some (py_strip (spec_prefilter t)), [])"
    by (simp add: read_config_file_def strip_comments_spec)
next
  assume "read_utf8 E path = Inl e \<and> exn_class e = UnicodeDecodeError \<and> read_default E path = Inr t"
  then show "read_config_file E path = (Some (py_strip (spec_prefilter t)), [])"
    by (simp add: read_config_file_def strip_comments_spec)
next
  show "concat (file_lines t) = t" by (rule concat_file_lines)
next
  assume "isfile E (path_join E (settings_dir E) [CONFIG_FILE])
      \<and> read_utf8 E (path_join E (settings_dir E) [CONFIG_FILE]) = Inr t"
  then show "load_config E
          = (if py_strip (spec_prefilter t) = [] then Inr ([], [])
             else parse_and_validate_codes E (py_strip (spec_prefilter t)))"
    using load_config_read [of E t] by (simp add: strip_comments_spec)
qed

theorem read_config_prefilter_witness:
  "isfile env_found config_path
   \<and> read_utf8 env_found config_path = Inr scenario_file
   \<and> py_strip (spec_prefilter scenario_file) = scenario_document
   \<and> read_config_file env_found config_path = (Some scenario_document, [])
   \<and> load_config env_found
       = Inr ([lit ''SC2034'', lit ''SC99''],
              [WarnInvalidCodes [JStr (lit ''sc2154'')],
               LoadedCodes [lit ''SC2034'', lit ''SC99'']])"
proof -
  have i: "isfile env_found config_path" using isfile_envs(1) by (simp only: cp_envs)
  have p: "py_strip (spec_prefilter scenario_file) = scenario_document"
    using strip_comments_scenario by (simp only: strip_comments_spec)
  have n: "scenario_document \<noteq> []" by (simp add: scenario_document_def lit_def)
  note t = read_config_prefilter [of env_found config_path scenario_file]
  from t read_utf8_envs(1) have "read_config_file env_found config_path
      = (Some (py_strip (spec_prefilter scenario_file)), [])" by blast
  then have r: "read_config_file env_found config_path = (Some scenario_document, [])"
    by (simp only: p)
  from t i read_utf8_envs(1) have "load_config env_found
      = (if py_strip (spec_prefilter scenario_file) = [] then Inr ([], [])
         else parse_and_validate_codes env_found (py_strip (spec_prefilter scenario_file)))"
    by (simp only: cp_envs)
  then have l: "load_config env_found
       = Inr ([lit ''SC2034'', lit ''SC99''],
              [WarnInvalidCodes [JStr (lit ''sc2154'')],
               LoadedCodes [lit ''SC2034'', lit ''SC99'']])"
    using n by (simp only: p parse_scenario if_False)
  from i read_utf8_envs(1) p r l show ?thesis by blast
qed

text \<open>
  Claim C6 as stated fails: for the file holding a no-break space, \<open>{}\<close> and a newline, the
  concatenation of the remaining lines is the whole text, which \<open>json.loads\<close> rejects; the
  loader parses the trimmed text \<open>{}\<close> instead and returns without printing an error.
\<close>

theorem prefilter_strip_counterexample:
  "read_utf8 env_nbsp_config config_path = Inr ([0xA0] @ lit ''{}'' @ [10])
   \<and> spec_prefilter ([0xA0] @ lit ''{}'' @ [10]) = [0xA0] @ lit ''{}'' @ [10]
   \<and> json_loads env_nbsp_config ([0xA0] @ lit ''{}'' @ [10])
       = Inl (Exn JSONDecodeError (lit ''Expecting value: line 1 column 1 (char 0)''))
   \<and> read_config_file env_nbsp_config config_path = (Some (lit ''{}''), [])
   \<and> json_loads env_nbsp_config (lit ''{}'') = Inr (JObj [])
   \<and> load_config env_nbsp_config = Inr ([], [])"
proof -
  have s: "spec_prefilter ([0xA0] @ lit ''{}'' @ [10]) = [0xA0] @ lit ''{}'' @ [10]"
    by (simp add: spec_prefilter_def is_comment_line_def is_blank_line_def py_strip_def
          py_lstrip_def py_rstrip_def py_isspace_def py_whitespace_def py_startswith_def lit_def)
  have r: "read_config_file env_nbsp_config config_path = (Some (lit ''{}''), [])"
    using read_envs(6) by (simp only: cp_envs)
  from read_utf8_envs(2) s loads_envs(7) r loads_envs(6) load_config_nbsp show ?thesis
    by blast
qed




text \<open>
  Claim C8. The override passes to the host's \<open>tmpfile\<close> the extension of the file name, as
  \<open>os.path.splitext\<close> gives it, when that extension is not empty, and \<open>.sh\<close> otherwise; the
  suffix chosen does not depend on the command, the code or the suffix it is called with.
\<close>

theorem tmpfile_suffix:
  "tmpfile osname super_tmpfile filename cmd code suffix
     = super_tmpfile cmd code
         (if snd (os_path_splitext osname filename) \<noteq> []
          then snd (os_path_splitext osname filename) else lit ''.sh'')
   \<and> tmpfile osname (\<lambda>c d s. s) filename cmd code suffix
       = tmpfile osname (\<lambda>c d s. s) filename cmd' code' suffix'"
  by (simp add: tmpfile_def Let_def)

theorem tmpfile_suffix_witness:
  "tmpfile (lit ''posix'') (\<lambda>c d s. s) (lit ''deploy.bash'') () () (lit ''tmp'') = lit ''.bash''
   \<and> tmpfile (lit ''posix'') (\<lambda>c d s. s) (lit ''Makefile'') () () (lit ''tmp'') = lit ''.sh''"
proof -
  have n: "lit ''.bash'' \<noteq> []" by (simp add: lit_def)
  from tmpfile_suffix [of "lit ''posix''" "\<lambda>c d s. s" "lit ''deploy.bash''" "()" "()" "lit ''tmp''",
      THEN conjunct1]
  have 1: "tmpfile (lit ''posix'') (\<lambda>c d s. s) (lit ''deploy.bash'') () () (lit ''tmp'') = lit ''.bash''"
    using n by (simp add: splitext_examples(1))
  from tmpfile_suffix [of "lit ''posix''" "\<lambda>c d s. s" "lit ''Makefile''" "()" "()" "lit ''tmp''",
      THEN conjunct1]
  have 2: "tmpfile (lit ''posix'') (\<lambda>c d s. s) (lit ''Makefile'') () () (lit ''tmp'') = lit ''.sh''"
    by (simp add: splitext_examples(2))
  from 1 2 show ?thesis by blast
qed

text \<open>
  Claim C9. On the disabled path (the locator returns the absent value) the constructor
  leaves the instance attributes \<open>executable\<close> and \<open>cmd\<close> as they were, so an instance that
  had none of its own still exposes the class defaults \<open>'shellcheck'\<close> and
  \<open>('shellcheck', '-f', 'gcc', '-')\<close>. A construction that finds a path and completes
  sets both, to the path and to the command built from it. A completed construction
  that leaves one of them unset took the disabled path: the locator's result was
  \<open>None\<close> or the empty string, which \<open>not self.shellcheck_path\<close> treats alike.
\<close>

theorem init_executable_cmd:
  "(find_executable E = Inr (None, out) \<longrightarrow>
      (\<exists>L. init E L0 = Inr (L, out)
         \<and> executable_attr L = executable_attr L0 \<and> cmd_attr L = cmd_attr L0
         \<and> (executable_attr L0 = None \<and> cmd_attr L0 = None \<longrightarrow>
              get_executable L = lit ''shellcheck''
              \<and> get_cmd L = [lit ''shellcheck'', lit ''-f'', lit ''gcc'', lit ''-''])))
   \<and> (\<forall>L out' p. init E L0 = Inr (L, out') \<and> find_executable E = Inr (Some p, out) \<and> p \<noteq> [] \<longrightarrow>
        (\<exists>codes out2. load_config E = Inr (codes, out2)
           \<and> executable_attr L = Some p \<and> get_executable L = p
           \<and> cmd_attr L = Some (fst (build_cmd p codes))
           \<and> get_cmd L = fst (build_cmd p codes)))
   \<and> (\<forall>L out'. init E L0 = Inr (L, out') \<and> (executable_attr L = None \<or> cmd_attr L = None) \<longrightarrow>
        (\<exists>out. find_executable E = Inr (None, out) \<or> find_executable E = Inr (Some [], out)))"
proof (intro conjI impI allI)
  assume "find_executable E = Inr (None, out)"
  then show "\<exists>L. init E L0 = Inr (L, out)
         \<and> executable_attr L = executable_attr L0 \<and> cmd_attr L = cmd_attr L0
         \<and> (executable_attr L0 = None \<and> cmd_attr L0 = None \<longrightarrow>
              get_executable L = lit ''shellcheck''
              \<and> get_cmd L = [lit ''shellcheck'', lit ''-f'', lit ''gcc'', lit ''-''])"
    by (simp add: init_def Let_def get_executable_def get_cmd_def class_executable_def
          class_cmd_def)
next
  fix L out' p
  assume a: "init E L0 = Inr (L, out') \<and> find_executable E = Inr (Some p, out) \<and> p \<noteq> []"
  then have fe: "find_executable E = Inr (Some p, out)" and pn: "p \<noteq> []"
    and i: "init E L0 = Inr (L, out')" by blast+
  show "\<exists>codes out2. load_config E = Inr (codes, out2)
           \<and> executable_attr L = Some p \<and> get_executable L = p
           \<and> cmd_attr L = Some (fst (build_cmd p codes))
           \<and> get_cmd L = fst (build_cmd p codes)"
  proof (cases "load_config E")
    case (Inl e)
    with fe pn i show ?thesis by (simp add: init_def Let_def)
  next
    case (Inr r)
    obtain codes out2 where r: "r = (codes, out2)" by (cases r)
    from fe pn Inr r i have "L = L0\<lparr>shellcheck_path_attr := Some (Some p),
        ignore_codes_attr := Some codes, executable_attr := Some p,
        cmd_attr := Some (fst (build_cmd p codes))\<rparr>"
      by (auto simp: init_def Let_def split: prod.splits)
    with Inr r show ?thesis
      by (simp add: get_executable_def get_cmd_def)
  qed
next
  fix L out'
  assume a: "init E L0 = Inr (L, out') \<and> (executable_attr L = None \<or> cmd_attr L = None)"
  from a have i: "init E L0 = Inr (L, out')" by (rule conjunct1)
  from a have u: "executable_attr L = None \<or> cmd_attr L = None" by (rule conjunct2)
  show "\<exists>out. find_executable E = Inr (None, out) \<or> find_executable E = Inr (Some [], out)"
  proof (cases "find_executable E")
    case (Inl e)
    with i show ?thesis by (simp add: init_def)
  next
    case (Inr r)
    obtain found o1 where r: "r = (found, o1)" by (cases r)
    show ?thesis
    proof (cases found)
      case None
      with Inr r show ?thesis by simp
    next
      case (Some p)
      show ?thesis
      proof (cases "p = []")
        case True
        with Inr r Some show ?thesis by simp
      next
        case False
        with Inr r Some i u have False
          by (auto simp: init_def Let_def split: sum.splits prod.splits)
        then show ?thesis ..
      qed
    qed
  qed
qed

theorem init_executable_cmd_witness:
  "(\<exists>L. init env_unbound fresh_linter
          = Inr (L, [WarnCannotLocate (Exn NameError
               (lit ''name '' @ [39] @ lit ''__file__'' @ [39] @ lit '' is not defined''))])
        \<and> get_executable L = lit ''shellcheck''
        \<and> get_cmd L = [lit ''shellcheck'', lit ''-f'', lit ''gcc'', lit ''-''])
   \<and> (\<exists>L out'. init env_found fresh_linter = Inr (L, out')
        \<and> executable_attr L = Some (lit ''/usr/bin/shellcheck'')
        \<and> cmd_attr L = Some (fst (build_cmd (lit ''/usr/bin/shellcheck'') [lit ''SC2034'', lit ''SC99''])))"
proof -
  have f: "executable_attr fresh_linter = None \<and> cmd_attr fresh_linter = None"
    by (simp add: fresh_linter_def)
  have n: "lit ''/usr/bin/shellcheck'' \<noteq> []" by (simp add: lit_def)
  from init_executable_cmd [of env_unbound _ fresh_linter] find_env_unbound f
  have 1: "\<exists>L. init env_unbound fresh_linter
          = Inr (L, [WarnCannotLocate (Exn NameError
               (lit ''name '' @ [39] @ lit ''__file__'' @ [39] @ lit '' is not defined''))])
        \<and> get_executable L = lit ''shellcheck''
        \<and> get_cmd L = [lit ''shellcheck'', lit ''-f'', lit ''gcc'', lit ''-'']"
    by blast
  obtain L out' where i: "init env_found fresh_linter = Inr (L, out')"
    using init_found_ex by blast
  from init_executable_cmd [of env_found "[FoundInPath (lit ''/usr/bin/shellcheck'')]" fresh_linter]
    i find_env_found n
  obtain codes out2 where "load_config env_found = Inr (codes, out2)"
    and "executable_attr L = Some (lit ''/usr/bin/shellcheck'')"
    and "cmd_attr L = Some (fst (build_cmd (lit ''/usr/bin/shellcheck'') codes))"
    by blast
  with load_config_found i have 2: "\<exists>L out'. init env_found fresh_linter = Inr (L, out')
        \<and> executable_attr L = Some (lit ''/usr/bin/shellcheck'')
        \<and> cmd_attr L = Some (fst (build_cmd (lit ''/usr/bin/shellcheck'') [lit ''SC2034'', lit ''SC99'']))"
    by auto
  from 1 2 show ?thesis by blast
qed



end
